theory Spec2Isabelle
  imports Complex_Main "HOL-Library.Sublist" "HOL-Library.Char_ord" "HOL-Library.List_Lexorder"
    "HOL-Library.Product_Lexorder" "HOL-Library.Multiset"
begin

section \<open>Inline markup: \<open>config_docx.ParagraphFormatter\<close>\<close>

text \<open>
  A run of a paragraph, as python-docx holds it: the text and the four character
  attributes the formatter sets (\<open>run.bold\<close>, \<open>run.italic\<close>, \<open>run.font.subscript\<close>,
  \<open>run.font.superscript\<close>). An attribute that was never set is \<open>False\<close> here.
  Strings are lists of characters; the model covers ASCII text.
\<close>

record run =
  run_text :: string
  bold :: bool
  italic :: bool
  subscript :: bool
  superscript :: bool

definition add_run :: "string \<Rightarrow> run" where
  "add_run t = \<lparr>run_text = t, bold = False, italic = False, subscript = False, superscript = False\<rparr>"

text \<open>
  The lazy body \<open>(?:.*?)\<close> followed by the closing delimiter \<open>d\<close>: the body grows one
  character at a time, never over a newline, until \<open>d\<close> follows. The result is the body
  and the text after the closing delimiter.
\<close>

fun lazy_until :: "string \<Rightarrow> string \<Rightarrow> (string \<times> string) option" where
  "lazy_until d [] = (if d = [] then Some ([], []) else None)"
| "lazy_until d (c # cs) =
     (if prefix d (c # cs) then Some ([], drop (length d) (c # cs))
      else if c = CHR 0x0A then None
      else map_option (\<lambda>(m, r). (c # m, r)) (lazy_until d cs))"

text \<open>
  One alternative of \<open>PATTERNS\<close> tried at the head of \<open>s\<close>: opening delimiter, lazy
  body, closing delimiter. It gives the matched text (delimiters included) and the rest.
\<close>

definition alternativa :: "string \<Rightarrow> string \<Rightarrow> (string \<times> string) option" where
  "alternativa d s =
     (if prefix d s then
        (case lazy_until d (drop (length d) s) of
           None \<Rightarrow> None
         | Some (m, r) \<Rightarrow> Some (d @ m @ d, r))
      else None)"

text \<open>
  \<open>compiled_pattern\<close> at the head of \<open>s\<close>: the four groups joined by \<open>|\<close>, tried in the
  order bold (group 1), subscript (2), italic (3), superscript (4). The result is the
  number of the group that matched, its text and the rest of the input.
\<close>

definition compiled_pattern :: "string \<Rightarrow> (nat \<times> string \<times> string) option" where
  "compiled_pattern s =
     (case alternativa ''**'' s of Some (g, r) \<Rightarrow> Some (1, g, r) | None \<Rightarrow>
      (case alternativa ''__'' s of Some (g, r) \<Rightarrow> Some (2, g, r) | None \<Rightarrow>
      (case alternativa ''_'' s of Some (g, r) \<Rightarrow> Some (3, g, r) | None \<Rightarrow>
      (case alternativa ''^'' s of Some (g, r) \<Rightarrow> Some (4, g, r) | None \<Rightarrow> None))))"

text \<open>
  \<open>re.sub(r"(^\*\*|\*\*$|^__|__$|^_|_$|^\^|\^$)", "", g)\<close> on the text of a group (which
  holds no newline): a left-to-right scan; \<open>inicio\<close> says that the scan is at position 0.
\<close>

fun remover_delimitadores :: "bool \<Rightarrow> string \<Rightarrow> string" where
  "remover_delimitadores inicio [] = []"
| "remover_delimitadores inicio [c] =
     (if c = CHR ''_'' \<or> c = CHR ''^'' then [] else [c])"
| "remover_delimitadores inicio (c # c' # cs) =
     (if inicio \<and> c = CHR ''*'' \<and> c' = CHR ''*'' then remover_delimitadores False cs
      else if c = CHR ''*'' \<and> c' = CHR ''*'' \<and> cs = [] then []
      else if inicio \<and> c = CHR ''_'' \<and> c' = CHR ''_'' then remover_delimitadores False cs
      else if c = CHR ''_'' \<and> c' = CHR ''_'' \<and> cs = [] then []
      else if inicio \<and> c = CHR ''_'' then remover_delimitadores False (c' # cs)
      else if inicio \<and> c = CHR ''^'' then remover_delimitadores False (c' # cs)
      else c # remover_delimitadores False (c' # cs))"

text \<open>
  \<open>_processar_match\<close>: the group that matched has its delimiters removed, becomes a run
  and gets the attribute of its group.
\<close>

definition processar_match :: "nat \<Rightarrow> string \<Rightarrow> run" where
  "processar_match grupo g =
     (let r = add_run (remover_delimitadores True g) in
      if grupo = 1 then r\<lparr>bold := True\<rparr>
      else if grupo = 2 then r\<lparr>subscript := True\<rparr>
      else if grupo = 3 then r\<lparr>italic := True\<rparr>
      else r\<lparr>superscript := True\<rparr>)"

lemma lazy_until_length:
  "lazy_until d s = Some (m, r) \<Longrightarrow> length r \<le> length s"
proof (induction s arbitrary: m r)
  case Nil
  then show ?case by (simp split: if_splits)
next
  case (Cons c cs)
  then show ?case by (fastforce split: if_splits)
qed

lemma alternativa_length:
  "alternativa d s = Some (g, r) \<Longrightarrow> d \<noteq> [] \<Longrightarrow> length r < length s"
proof -
  assume a: "alternativa d s = Some (g, r)" and d: "d \<noteq> []"
  from a obtain zs m where s: "s = d @ zs" and l: "lazy_until d zs = Some (m, r)"
    unfolding alternativa_def by (auto split: if_splits option.splits simp: prefix_def)
  from d obtain x xs where "d = x # xs" by (cases d) auto
  with lazy_until_length [OF l] s show ?thesis by simp
qed

lemma compiled_pattern_length:
  "compiled_pattern s = Some (n, g, r) \<Longrightarrow> length r < length s"
  unfolding compiled_pattern_def
  by (auto split: option.splits dest: alternativa_length)

text \<open>
  \<open>_aplicar_formatacao\<close>: the loop over \<open>finditer\<close>. \<open>pendente\<close> is the text between
  \<open>last_index\<close> and the position of the scan; it becomes a run without attributes in
  front of the next match, or at the end of the text, when it is not empty.
\<close>

function finditer_runs :: "string \<Rightarrow> string \<Rightarrow> run list" where
  "finditer_runs pendente [] = (if pendente = [] then [] else [add_run pendente])"
| "finditer_runs pendente (c # cs) =
     (case compiled_pattern (c # cs) of
        None \<Rightarrow> finditer_runs (pendente @ [c]) cs
      | Some (grupo, g, resto) \<Rightarrow>
          (if pendente = [] then [] else [add_run pendente])
            @ processar_match grupo g # finditer_runs [] resto)"
  by pat_completeness auto
termination
  by (relation "measure (\<lambda>(p, s). length s)") (auto dest: compiled_pattern_length)

definition aplicar_formatacao :: "string \<Rightarrow> run list" where
  "aplicar_formatacao texto = finditer_runs [] texto"

text \<open>
  \<open>contem d s\<close>: the text \<open>d\<close> occurs in \<open>s\<close> (Python's \<open>d in s\<close>).
\<close>

fun contem :: "string \<Rightarrow> string \<Rightarrow> bool" where
  "contem d [] = (d = [])"
| "contem d (c # cs) = (prefix d (c # cs) \<or> contem d cs)"

section \<open>Strings and numbers\<close>

text \<open>
  \<open>str.isspace\<close> and \<open>str.isdigit\<close> on ASCII characters, \<open>str.split()\<close> without
  argument (runs of whitespace separate the items, none of which is empty), \<open>str(n)\<close>
  for an integer and \<open>int(s)\<close> for a string of decimal digits with an optional
  minus sign (the code calls \<open>int\<close> on such strings only: on items that passed
  \<open>isdigit\<close> and on the text of a year).
\<close>

definition isspace :: "char \<Rightarrow> bool" where
  "isspace c = (let n = (of_char c :: nat) in (9 \<le> n \<and> n \<le> 13) \<or> (28 \<le> n \<and> n \<le> 32))"

definition isdigit_char :: "char \<Rightarrow> bool" where
  "isdigit_char c = (let n = (of_char c :: nat) in 48 \<le> n \<and> n \<le> 57)"

definition isdigit :: "string \<Rightarrow> bool" where
  "isdigit t = (t \<noteq> [] \<and> list_all isdigit_char t)"

definition strip :: "string \<Rightarrow> string" where
  "strip t = rev (dropWhile isspace (rev (dropWhile isspace t)))"

fun split_aux :: "string \<Rightarrow> string \<Rightarrow> string list" where
  "split_aux item [] = (if item = [] then [] else [item])"
| "split_aux item (c # cs) =
     (if isspace c then (if item = [] then [] else [item]) @ split_aux [] cs
      else split_aux (item @ [c]) cs)"

definition split :: "string \<Rightarrow> string list" where
  "split t = split_aux [] t"

definition int_digitos :: "string \<Rightarrow> int" where
  "int_digitos t = foldl (\<lambda>n c. 10 * n + (of_char c - 48)) 0 t"

definition int_str :: "string \<Rightarrow> int" where
  "int_str t = (case t of
      [] \<Rightarrow> 0
    | c # cs \<Rightarrow> if c = CHR ''-'' then - int_digitos cs else int_digitos (c # cs))"

function str_nat :: "nat \<Rightarrow> string" where
  "str_nat n =
     (if n < 10 then [char_of (48 + n)]
      else str_nat (n div 10) @ [char_of (48 + n mod 10)])"
  by pat_completeness auto
termination
  by (relation "measure id") auto

declare str_nat.simps [simp del]

definition str_int :: "int \<Rightarrow> string" where
  "str_int i = (if i < 0 then CHR ''-'' # str_nat (nat (- i)) else str_nat (nat i))"

fun join :: "string \<Rightarrow> string list \<Rightarrow> string" where
  "join sep [] = []"
| "join sep [t] = t"
| "join sep (t # u # ts) = t @ sep @ join sep (u # ts)"

section \<open>Paragraphs: \<open>ParagraphFormatter.adicionar_paragrafo_formatado\<close>\<close>

text \<open>
  \<open>_eh_lista_marcador\<close>: the text starts with \<open>* -\<close> or with \<open>*\<close>, a space, a backslash
  and \<open>-\<close>.
\<close>

definition eh_lista_marcador :: "string \<Rightarrow> bool" where
  "eh_lista_marcador texto =
     (prefix [CHR ''*'', CHR '' '', CHR 0x5C, CHR ''-''] texto \<or> prefix ''* -'' texto)"

text \<open>
  \<open>re.sub(r"^\*\s*\\?-", "", texto)\<close>: at the start of the text an asterisk, the
  longest run of whitespace, an optional backslash and a hyphen are removed; a text
  that does not start like this is unchanged.
\<close>

definition remover_marcador :: "string \<Rightarrow> string" where
  "remover_marcador texto =
     (case texto of
        [] \<Rightarrow> texto
      | c # cs \<Rightarrow>
          if c \<noteq> CHR ''*'' then texto
          else (case dropWhile isspace cs of
                  [] \<Rightarrow> texto
                | [x] \<Rightarrow> if x = CHR ''-'' then [] else texto
                | x # y # r \<Rightarrow>
                    if x = CHR 0x5C \<and> y = CHR ''-'' then r
                    else if x = CHR ''-'' then y # r
                    else texto))"

definition extrair_conteudo :: "string \<Rightarrow> string" where
  "extrair_conteudo texto =
     (if eh_lista_marcador texto then strip (remover_marcador texto) else texto)"

text \<open>
  \<open>adicionar_paragrafo_formatado\<close>: the style of the new paragraph and its runs.
\<close>

datatype estilo = Sem_estilo | List_Bullet

definition adicionar_paragrafo_formatado :: "string \<Rightarrow> estilo \<times> run list" where
  "adicionar_paragrafo_formatado texto =
     (let texto_strip = strip texto in
      (if eh_lista_marcador texto_strip then List_Bullet else Sem_estilo,
       aplicar_formatacao (extrair_conteudo texto_strip)))"

section \<open>The question bank and the filters: \<open>main.ProcessadorQuestoes\<close>\<close>

text \<open>
  One row of the consolidated table, with the columns the filters read. The numeric
  columns \<open>CO_HABILIDADE\<close> and \<open>NU_PARAM_B\<close> have gone through
  \<open>pd.to_numeric(errors='coerce')\<close> when the table was loaded: \<open>None\<close> is NaN (a missing
  or malformed value), \<open>Some x\<close> a finite number. After a year has been filtered the rows
  get the column \<open>ANO\<close> (the year as text), and at the end \<open>NUMERO_QUESTAO\<close>.
\<close>

record linha =
  ANO_PROVA :: int
  SG_AREA :: string
  CO_POSICAO :: int
  CO_PROVA :: int
  CO_HABILIDADE :: "real option"
  NU_PARAM_B :: "real option"
  TX_GABARITO :: string

record linha_ano = linha +
  ANO :: string

record linha_numerada = linha_ano +
  NUMERO_QUESTAO :: int

definition com_ano :: "string \<Rightarrow> linha \<Rightarrow> linha_ano" where
  "com_ano a r =
     \<lparr>ANO_PROVA = ANO_PROVA r, SG_AREA = SG_AREA r, CO_POSICAO = CO_POSICAO r,
      CO_PROVA = CO_PROVA r, CO_HABILIDADE = CO_HABILIDADE r, NU_PARAM_B = NU_PARAM_B r,
      TX_GABARITO = TX_GABARITO r, ANO = a\<rparr>"

definition com_numero :: "int \<Rightarrow> linha_ano \<Rightarrow> linha_numerada" where
  "com_numero n r =
     \<lparr>ANO_PROVA = ANO_PROVA r, SG_AREA = SG_AREA r, CO_POSICAO = CO_POSICAO r,
      CO_PROVA = CO_PROVA r, CO_HABILIDADE = CO_HABILIDADE r, NU_PARAM_B = NU_PARAM_B r,
      TX_GABARITO = TX_GABARITO r, ANO = ANO r, NUMERO_QUESTAO = n\<rparr>"

text \<open>
  The dictionary \<open>filtros\<close> that \<open>_gerar_documento\<close> builds; it always has these eight
  keys, so the defaults of \<open>filtros.get\<close> are never used. \<open>None\<close> is Python's \<open>None\<close>.
\<close>

record filtros =
  posicoes :: "string option"
  min_dif :: int
  max_dif :: int
  filtrar_quantidade :: bool
  quantidade :: "int option"
  filtrar_dificuldade :: bool
  filtrar_habilidade :: bool
  habilidades :: "int list option"

text \<open>The only exception the filters can raise, and the records of the logger.\<close>

datatype erro = ValueError

datatype registro =
    Error_dataframe_indisponivel
  | Warning_nenhuma_questao_anos "int list"
  | Warning_nenhuma_prova string
  | Warning_ano_nao_encontrado string
  | Warning_materia_nao_encontrada string string
  | Warning_nenhuma_habilidade "int list"
  | Info_encontradas nat
  | Info_limitado int

text \<open>\<open>ListaProva.provas_regulares\<close>: year (as text) to subject to exam code.\<close>

definition provas_regulares :: "(string \<times> (string \<times> int) list) list" where
  "provas_regulares =
    [(''2009'', [(''CH'', 53), (''CN'', 49), (''MT'', 63), (''LC'', 59)]),
     (''2010'', [(''CH'', 85), (''CN'', 89), (''MT'', 99), (''LC'', 95)]),
     (''2011'', [(''CH'', 117), (''CN'', 121), (''MT'', 131), (''LC'', 127)]),
     (''2012'', [(''CH'', 137), (''CN'', 141), (''MT'', 151), (''LC'', 147)]),
     (''2013'', [(''CH'', 167), (''CN'', 171), (''MT'', 181), (''LC'', 177)]),
     (''2014'', [(''CH'', 195), (''CN'', 199), (''MT'', 209), (''LC'', 205)]),
     (''2015'', [(''CH'', 231), (''CN'', 235), (''MT'', 245), (''LC'', 241)]),
     (''2016'', [(''CH'', 295), (''CN'', 291), (''MT'', 303), (''LC'', 299)]),
     (''2017'', [(''CH'', 395), (''CN'', 391), (''MT'', 403), (''LC'', 399)]),
     (''2018'', [(''CH'', 451), (''CN'', 447), (''MT'', 459), (''LC'', 455)]),
     (''2019'', [(''CH'', 507), (''CN'', 503), (''MT'', 515), (''LC'', 511)]),
     (''2020'', [(''CH'', 567), (''CN'', 597), (''MT'', 587), (''LC'', 577)]),
     (''2021'', [(''CH'', 879), (''CN'', 909), (''MT'', 899), (''LC'', 889)]),
     (''2022'', [(''CH'', 1055), (''CN'', 1085), (''MT'', 1075), (''LC'', 1065)]),
     (''2023'', [(''CH'', 1191), (''CN'', 1221), (''MT'', 1211), (''LC'', 1201)]),
     (''2024'', [(''CH'', 1383), (''CN'', 1419), (''MT'', 1407), (''LC'', 1395)])]"



text \<open>
  \<open>_obter_provas_escolhidas\<close>: the exam codes of the chosen subjects for one year, as
  the items of the dictionary \<open>provas\<close>, and what it logs.
\<close>

fun provas_das_materias ::
  "(string \<times> int) list \<Rightarrow> string \<Rightarrow> string list \<Rightarrow> (string \<times> int) list \<times> registro list" where
  "provas_das_materias do_ano ano [] = ([], [])"
| "provas_das_materias do_ano ano (materia # materias) =
     (let (provas, lg) = provas_das_materias do_ano ano materias in
      case map_of do_ano materia of
        Some codigo \<Rightarrow> ((materia, codigo) # provas, lg)
      | None \<Rightarrow> (provas, Warning_materia_nao_encontrada materia ano # lg))"

definition obter_provas_escolhidas ::
  "string \<Rightarrow> string list \<Rightarrow> (string \<times> int) list \<times> registro list" where
  "obter_provas_escolhidas ano materias =
     (case map_of provas_regulares ano of
        None \<Rightarrow> ([], [Warning_ano_nao_encontrado ano])
      | Some do_ano \<Rightarrow> provas_das_materias do_ano ano materias)"

text \<open>
  \<open>_filtrar_por_habilidade\<close>: rows whose skill code is one of \<open>float(h)\<close>; NaN is in no
  list of numbers.
\<close>

definition filtrar_por_habilidade ::
  "linha list \<Rightarrow> int list \<Rightarrow> linha list \<times> registro list" where
  "filtrar_por_habilidade df hs =
     (if df = [] then (df, [])
      else
        let df_filtrado =
              filter (\<lambda>r. case CO_HABILIDADE r of
                             None \<Rightarrow> False
                           | Some h \<Rightarrow> h \<in> set (map real_of_int hs)) df
        in (df_filtrado,
            [if df_filtrado = [] then Warning_nenhuma_habilidade hs
             else Info_encontradas (length df_filtrado)]))"

text \<open>
  \<open>drop_duplicates(subset=["CO_POSICAO"])\<close> keeps the first row of each position;
  \<open>vistos\<close> are the positions already kept.
\<close>

fun drop_duplicates :: "int list \<Rightarrow> linha list \<Rightarrow> linha list" where
  "drop_duplicates vistos [] = []"
| "drop_duplicates vistos (r # rs) =
     (if CO_POSICAO r \<in> set vistos then drop_duplicates vistos rs
      else r # drop_duplicates (CO_POSICAO r # vistos) rs)"

text \<open>The code of a value in an ordered categorical: its index in the categories.\<close>

fun codigo_categoria :: "int list \<Rightarrow> int \<Rightarrow> nat" where
  "codigo_categoria [] p = 0"
| "codigo_categoria (c # cs) p = (if c = p then 0 else Suc (codigo_categoria cs p))"

text \<open>
  \<open>_filtrar_por_posicao\<close>. The positions are the items of \<open>posicoes_str\<close> that are
  decimal numbers. \<open>pd.Categorical(..., categories=posicoes, ordered=True)\<close> raises
  ValueError ("Categorical categories must be unique") when a position is listed twice;
  otherwise the rows are sorted by the index of their position in the list.
\<close>

definition posicoes_da_string :: "string \<Rightarrow> int list" where
  "posicoes_da_string posicoes_str =
     map (\<lambda>p. int_str (strip p)) (filter (\<lambda>p. isdigit (strip p)) (split posicoes_str))"

definition filtrar_por_posicao :: "linha list \<Rightarrow> string \<Rightarrow> erro + linha list" where
  "filtrar_por_posicao df posicoes_str =
     (let ps = posicoes_da_string posicoes_str in
      if ps = [] then Inr df
      else
        let df_filtrado = drop_duplicates [] (filter (\<lambda>r. CO_POSICAO r \<in> set ps) df)
        in if \<not> distinct ps then Inl ValueError
           else Inr (sort_key (\<lambda>r. codigo_categoria ps (CO_POSICAO r)) df_filtrado))"

text \<open>
  The sort key of \<open>sort_values("NU_PARAM_B")\<close>: numbers in ascending order, NaN last.
  The model sorts stably. For a single column pandas leaves the order of rows with
  equal keys open; the theorems below speak of the order by key and of the rows that
  are kept, not of the order among equal keys. The sort by two columns in
  \<open>_aplicar_filtros_globais\<close> is stable in pandas as well.
\<close>

definition chave_dificuldade :: "'a linha_scheme \<Rightarrow> bool \<times> real" where
  "chave_dificuldade r = (case NU_PARAM_B r of None \<Rightarrow> (True, 0) | Some b \<Rightarrow> (False, b))"

definition dif_le :: "'a linha_scheme \<Rightarrow> int \<Rightarrow> bool" where
  "dif_le r m = (case NU_PARAM_B r of None \<Rightarrow> False | Some b \<Rightarrow> b \<le> real_of_int m)"

definition dif_ge :: "'a linha_scheme \<Rightarrow> int \<Rightarrow> bool" where
  "dif_ge r m = (case NU_PARAM_B r of None \<Rightarrow> False | Some b \<Rightarrow> real_of_int m \<le> b)"

definition filtrar_por_dificuldade :: "linha list \<Rightarrow> int \<Rightarrow> int \<Rightarrow> linha list" where
  "filtrar_por_dificuldade df min_d max_d =
     (if df = [] then df
      else if min_d = 0 \<and> max_d = 2000 then sort_key chave_dificuldade df
      else
        let df_filtrado =
              (if min_d = 0 then filter (\<lambda>r. dif_le r max_d) df
               else if max_d = 2000 then filter (\<lambda>r. dif_ge r min_d) df
               else filter (\<lambda>r. dif_ge r min_d \<and> dif_le r max_d) df)
        in sort_key chave_dificuldade df_filtrado)"

text \<open>Truth values of the entries of \<open>filtros\<close>, as Python's \<open>if\<close> takes them.\<close>

definition posicoes_ativas :: "filtros \<Rightarrow> bool" where
  "posicoes_ativas f = (case posicoes f of None \<Rightarrow> False | Some s \<Rightarrow> s \<noteq> [])"

definition quantidade_ativa :: "filtros \<Rightarrow> bool" where
  "quantidade_ativa f =
     (filtrar_quantidade f \<and> (case quantidade f of None \<Rightarrow> False | Some q \<Rightarrow> q \<noteq> 0))"

definition habilidade_ativa :: "filtros \<Rightarrow> bool" where
  "habilidade_ativa f =
     (filtrar_habilidade f \<and> (case habilidades f of None \<Rightarrow> False | Some hs \<Rightarrow> hs \<noteq> []))"

text \<open>
  \<open>_aplicar_filtros\<close>: the filters of one year. The result is the rows, or the
  exception that ended the call, and the records logged until then.
\<close>

definition aplicar_filtros ::
  "linha list \<Rightarrow> string \<Rightarrow> string list \<Rightarrow> filtros \<Rightarrow> (erro + linha list) \<times> registro list" where
  "aplicar_filtros df ano materias f =
     (let (provas_escolhidas, lg1) = obter_provas_escolhidas ano materias in
      if provas_escolhidas = [] then (Inr [], lg1 @ [Warning_nenhuma_prova ano])
      else
        let df_base = filter (\<lambda>r. SG_AREA r \<in> set materias
                                  \<and> CO_PROVA r \<in> set (map snd provas_escolhidas)) df;
            (df_hab, lg2) =
              (if habilidade_ativa f then filtrar_por_habilidade df_base (the (habilidades f))
               else (df_base, []))
        in if posicoes_ativas f then (filtrar_por_posicao df_hab (the (posicoes f)), lg1 @ lg2)
           else if filtrar_dificuldade f
             then (Inr (filtrar_por_dificuldade df_hab (min_dif f) (max_dif f)), lg1 @ lg2)
           else (Inr df_hab, lg1 @ lg2))"

text \<open>
  \<open>DataFrame.head(n)\<close>: the first \<open>n\<close> rows, or all but the last \<open>-n\<close> when \<open>n\<close> is
  negative.
\<close>

definition head :: "int \<Rightarrow> 'a list \<Rightarrow> 'a list" where
  "head n xs = (if 0 \<le> n then take (nat n) xs else take (length xs - nat (- n)) xs)"

text \<open>
  \<open>_aplicar_filtros_globais\<close>: the cap on the number of questions. The sort by
  \<open>["ANO", "NU_PARAM_B"]\<close> compares the years as text.
\<close>

definition chave_ano_dificuldade :: "'a linha_ano_scheme \<Rightarrow> string \<times> bool \<times> real" where
  "chave_ano_dificuldade r = (ANO r, chave_dificuldade r)"

definition aplicar_filtros_globais ::
  "linha_ano list \<Rightarrow> filtros \<Rightarrow> linha_ano list \<times> registro list" where
  "aplicar_filtros_globais df f =
     (if df = [] then (df, [])
      else if quantidade_ativa f then
        (let quantidade_max = the (quantidade f) in
         if int (length df) > quantidade_max then
           (head quantidade_max
              (if \<not> posicoes_ativas f then sort_key chave_ano_dificuldade df else df),
            [Info_limitado quantidade_max])
         else (df, []))
      else (df, []))"

text \<open>
  The loop of \<open>carregar_questoes\<close> over the years: each year is filtered on its own
  rows and, when rows remain, they are tagged with the year and appended.
\<close>

fun filtrar_anos ::
  "linha list \<Rightarrow> int list \<Rightarrow> string list \<Rightarrow> filtros \<Rightarrow> (erro + linha_ano list) \<times> registro list" where
  "filtrar_anos df_anos [] materias f = (Inr [], [])"
| "filtrar_anos df_anos (ano # anos) materias f =
     (let df_ano = filter (\<lambda>r. ANO_PROVA r = ano) df_anos in
      case aplicar_filtros df_ano (str_int ano) materias f of
        (Inl e, lg) \<Rightarrow> (Inl e, lg)
      | (Inr df_ano_filtrado, lg) \<Rightarrow>
          (case filtrar_anos df_anos anos materias f of
             (Inl e, lg') \<Rightarrow> (Inl e, lg @ lg')
           | (Inr resto, lg') \<Rightarrow>
               (Inr (map (com_ano (str_int ano)) df_ano_filtrado @ resto), lg @ lg')))"

text \<open>
  \<open>carregar_questoes\<close>, from the table loaded at start-up; \<open>anos\<close> are the years after
  \<open>int(ano)\<close>. The final rows are numbered from 1 in their order.
\<close>

definition numerar :: "linha_ano list \<Rightarrow> linha_numerada list" where
  "numerar df = map (\<lambda>(i, r). com_numero (int i + 1) r) (enumerate 0 df)"

definition carregar_questoes ::
  "linha list \<Rightarrow> int list \<Rightarrow> string list \<Rightarrow> filtros
     \<Rightarrow> (erro + linha_numerada list) \<times> registro list" where
  "carregar_questoes df_consolidado anos materias f =
     (if df_consolidado = [] then (Inr [], [Error_dataframe_indisponivel])
      else
        let df_anos = filter (\<lambda>r. ANO_PROVA r \<in> set anos) df_consolidado in
        if df_anos = [] then (Inr [], [Warning_nenhuma_questao_anos anos])
        else
          (case filtrar_anos df_anos anos materias f of
             (Inl e, lg) \<Rightarrow> (Inl e, lg)
           | (Inr df_combinado, lg) \<Rightarrow>
               (let (df_final, lg') = aplicar_filtros_globais df_combinado f
                in (Inr (numerar df_final), lg @ lg'))))"

section \<open>The input form: \<open>entradas.FiltrosQuestoes\<close>\<close>

text \<open>
  The filters chosen in the form (the fields carry the prefix \<open>fq\<close>) and \<open>validar\<close>,
  which gives \<open>(True, None)\<close> or \<open>False\<close> with the reason of the refusal.
\<close>

record FiltrosQuestoes =
  fq_anos :: "string list"
  fq_materias :: "string list"
  fq_numeros_questoes :: "int list option"
  fq_dificuldade_minima :: int
  fq_dificuldade_maxima :: int
  fq_filtrar_por_numero :: bool
  fq_filtrar_por_dificuldade :: bool
  fq_filtrar_por_quantidade :: bool
  fq_quantidade_questoes :: "int option"
  fq_filtrar_por_habilidade :: bool
  fq_habilidades :: "int list option"

datatype motivo =
    Sem_ano
  | Sem_materia
  | Dificuldade_minima_maior
  | Sem_numeros
  | Quantidade_nao_positiva
  | Sem_habilidades
  | Numero_e_quantidade

definition lista_vazia :: "'a list option \<Rightarrow> bool" where
  "lista_vazia l = (case l of None \<Rightarrow> True | Some xs \<Rightarrow> xs = [])"

definition validar :: "FiltrosQuestoes \<Rightarrow> bool \<times> motivo option" where
  "validar fq =
     (if fq_anos fq = [] then (False, Some Sem_ano)
      else if fq_materias fq = [] then (False, Some Sem_materia)
      else if fq_filtrar_por_dificuldade fq \<and> fq_dificuldade_minima fq > fq_dificuldade_maxima fq
        then (False, Some Dificuldade_minima_maior)
      else if fq_filtrar_por_numero fq \<and> lista_vazia (fq_numeros_questoes fq)
        then (False, Some Sem_numeros)
      else if fq_filtrar_por_quantidade fq
              \<and> (case fq_quantidade_questoes fq of None \<Rightarrow> True | Some q \<Rightarrow> q = 0 \<or> q \<le> 0)
        then (False, Some Quantidade_nao_positiva)
      else if fq_filtrar_por_habilidade fq \<and> lista_vazia (fq_habilidades fq)
        then (False, Some Sem_habilidades)
      else if fq_filtrar_por_numero fq \<and> fq_filtrar_por_quantidade fq
        then (False, Some Numero_e_quantidade)
      else (True, None))"

text \<open>
  \<open>entradas()\<close> turns the numbers into the text \<open>posicoes\<close>, and \<open>_gerar_documento\<close>
  builds the dictionary \<open>filtros\<close> from what \<open>entradas()\<close> returns.
\<close>

definition posicoes_str :: "FiltrosQuestoes \<Rightarrow> string option" where
  "posicoes_str fq =
     (if lista_vazia (fq_numeros_questoes fq) then None
      else Some (join '' '' (map str_int (the (fq_numeros_questoes fq)))))"

definition gerar_filtros :: "FiltrosQuestoes \<Rightarrow> filtros" where
  "gerar_filtros fq =
     \<lparr>posicoes = posicoes_str fq,
      min_dif = fq_dificuldade_minima fq,
      max_dif = fq_dificuldade_maxima fq,
      filtrar_quantidade = fq_filtrar_por_quantidade fq,
      quantidade = fq_quantidade_questoes fq,
      filtrar_dificuldade = (case posicoes_str fq of None \<Rightarrow> True | Some s \<Rightarrow> s = []),
      filtrar_habilidade = fq_filtrar_por_habilidade fq,
      habilidades = fq_habilidades fq\<rparr>"

section \<open>Assembling the questions: \<open>main.AplicacaoENEM._processar_questoes\<close>\<close>

text \<open>
  The content of a \<open>details.json\<close> file, and the file system seen by
  \<open>carregar_detalhes_questao\<close>: for a year and a position the file is missing, cannot be
  read, or holds a dictionary.
\<close>

datatype json =
    JNull
  | JBool bool
  | JNum real
  | JStr string
  | JList "json list"
  | JObj "(string \<times> json) list"

datatype arquivo_json = Ausente | Ilegivel | Conteudo "(string \<times> json) list"

datatype registro_json =
    Warning_json_nao_encontrado int int
  | Error_carregar_json int int
  | Warning_dados_json_nao_encontrados int int

definition carregar_detalhes_questao ::
  "(int \<Rightarrow> int \<Rightarrow> arquivo_json) \<Rightarrow> int \<Rightarrow> int
     \<Rightarrow> (string \<times> json) list option \<times> registro_json list" where
  "carregar_detalhes_questao pasta_json a p =
     (case pasta_json a p of
        Ausente \<Rightarrow> (None, [Warning_json_nao_encontrado a p])
      | Ilegivel \<Rightarrow> (None, [Error_carregar_json a p])
      | Conteudo d \<Rightarrow> (Some d, []))"

text \<open>\<open>dict.get(key)\<close>, with \<open>JNull\<close> for \<open>None\<close>, and \<open>int(float(x))\<close>.\<close>

definition dict_get :: "(string \<times> json) list \<Rightarrow> string \<Rightarrow> json" where
  "dict_get d k = (case map_of d k of None \<Rightarrow> JNull | Some v \<Rightarrow> v)"

definition truncar :: "real \<Rightarrow> int" where
  "truncar x = (if 0 \<le> x then \<lfloor>x\<rfloor> else \<lceil>x\<rceil>)"

record Questao =
  numero :: int
  ano :: int
  posicao :: int
  nota :: "real option"
  habilidade :: string
  gabarito :: string
  contexto :: json
  referencias :: json
  introducao_alternativas :: json
  alternativas :: json
  arquivos :: json

definition criar_objeto_questao ::
  "linha_numerada \<Rightarrow> (string \<times> json) list \<Rightarrow> int \<Rightarrow> int \<Rightarrow> Questao" where
  "criar_objeto_questao row dados_json n a =
     \<lparr>numero = n,
      ano = a,
      posicao = CO_POSICAO row,
      nota = NU_PARAM_B row,
      habilidade = (case CO_HABILIDADE row of None \<Rightarrow> ''-'' | Some h \<Rightarrow> str_int (truncar h)),
      gabarito = TX_GABARITO row,
      contexto = dict_get dados_json ''context'',
      referencias = dict_get dados_json ''references'',
      introducao_alternativas = dict_get dados_json ''alternativesIntroduction'',
      alternativas =
        (case map_of dados_json ''alternatives'' of
           None \<Rightarrow> JList [] | Some JNull \<Rightarrow> JList [] | Some v \<Rightarrow> v),
      arquivos =
        (case map_of dados_json ''files'' of
           None \<Rightarrow> JList [] | Some JNull \<Rightarrow> JList [] | Some v \<Rightarrow> v)\<rparr>"

text \<open>
  The loop of \<open>_processar_questoes\<close>: \<open>idx\<close> is the counter of
  \<open>enumerate(df.iterrows(), start=1)\<close>; a row whose details are missing or empty is
  logged and left out.
\<close>

fun processar_linhas ::
  "(int \<Rightarrow> int \<Rightarrow> arquivo_json) \<Rightarrow> int \<Rightarrow> linha_numerada list
     \<Rightarrow> Questao list \<times> registro_json list" where
  "processar_linhas pasta_json idx [] = ([], [])"
| "processar_linhas pasta_json idx (row # rows) =
     (let a = int_str (ANO row);
          (dados_json, lg) = carregar_detalhes_questao pasta_json a (CO_POSICAO row);
          (questoes, lg') = processar_linhas pasta_json (idx + 1) rows
      in case dados_json of
           None \<Rightarrow> (questoes, lg @ Warning_dados_json_nao_encontrados a (CO_POSICAO row) # lg')
         | Some d \<Rightarrow>
             if d = [] then
               (questoes, lg @ Warning_dados_json_nao_encontrados a (CO_POSICAO row) # lg')
             else (criar_objeto_questao row d idx a # questoes, lg @ lg'))"

definition processar_questoes ::
  "(int \<Rightarrow> int \<Rightarrow> arquivo_json) \<Rightarrow> linha_numerada list \<Rightarrow> Questao list \<times> registro_json list" where
  "processar_questoes pasta_json df = processar_linhas pasta_json 1 df"

section \<open>Projections and example data\<close>

text \<open>The columns of the table in a row that has got further columns.\<close>

definition colunas_da_tabela :: "'a linha_scheme \<Rightarrow> linha" where
  "colunas_da_tabela r =
     \<lparr>ANO_PROVA = ANO_PROVA r, SG_AREA = SG_AREA r, CO_POSICAO = CO_POSICAO r,
      CO_PROVA = CO_PROVA r, CO_HABILIDADE = CO_HABILIDADE r, NU_PARAM_B = NU_PARAM_B r,
      TX_GABARITO = TX_GABARITO r\<rparr>"

text \<open>
  A row with the given year, subject, position, exam code and difficulty, and the
  dictionary \<open>filtros\<close> of a form in which no filter was chosen.
\<close>

definition linha_exemplo :: "int \<Rightarrow> string \<Rightarrow> int \<Rightarrow> int \<Rightarrow> real option \<Rightarrow> linha" where
  "linha_exemplo y area p prova b =
     \<lparr>ANO_PROVA = y, SG_AREA = area, CO_POSICAO = p, CO_PROVA = prova,
      CO_HABILIDADE = None, NU_PARAM_B = b, TX_GABARITO = ''A''\<rparr>"

definition filtros_padrao :: filtros where
  "filtros_padrao =
     \<lparr>posicoes = None, min_dif = 1, max_dif = 2000, filtrar_quantidade = False,
      quantidade = None, filtrar_dificuldade = True, filtrar_habilidade = False,
      habilidades = None\<rparr>"

text \<open>
  The rows of one exam (year \<open>y\<close>, subject \<open>m\<close>, exam code \<open>c\<close>) that are left after the
  difficulty stage with the bounds of \<open>f\<close>, in the order in which that stage returns them.
\<close>

definition questoes_do_ano :: "linha list \<Rightarrow> int \<Rightarrow> string \<Rightarrow> int \<Rightarrow> filtros \<Rightarrow> linha list" where
  "questoes_do_ano df y m c f =
     filtrar_por_dificuldade
       (filter (\<lambda>r. ANO_PROVA r = y \<and> SG_AREA r = m \<and> CO_PROVA r = c) df)
       (min_dif f) (max_dif f)"

text \<open>
  A table for the years 2020 and 2021 with 50 rows of MT and 50 rows of LC each. The MT
  rows of 2020 have the difficulties 101 to 150, those of 2021 the difficulties 1 to 50.
\<close>

definition tabela_dois_anos :: "linha list" where
  "tabela_dois_anos =
     concat (map (\<lambda>i. [linha_exemplo 2020 ''MT'' (135 + i) 587 (Some (real_of_int (100 + i))),
                        linha_exemplo 2020 ''LC'' i 577 (Some (real_of_int i)),
                        linha_exemplo 2021 ''MT'' (135 + i) 899 (Some (real_of_int i)),
                        linha_exemplo 2021 ''LC'' i 889 (Some (real_of_int i))])
       [1..50])"

definition filtros_dez :: filtros where
  "filtros_dez = filtros_padrao\<lparr>filtrar_quantidade := True, quantidade := Some 10\<rparr>"

definition resumo :: "linha_numerada \<Rightarrow> int \<times> string \<times> string \<times> real option" where
  "resumo r = (NUMERO_QUESTAO r, ANO r, SG_AREA r, NU_PARAM_B r)"

text \<open>
  A form in which position 109 was typed twice, and a folder of details in which only
  the question at position 137 of 2020 has a file.
\<close>

definition filtros_posicao_repetida :: FiltrosQuestoes where
  "filtros_posicao_repetida =
     \<lparr>fq_anos = [''2020''], fq_materias = [''MT''], fq_numeros_questoes = Some [109, 109],
      fq_dificuldade_minima = 1, fq_dificuldade_maxima = 2000, fq_filtrar_por_numero = True,
      fq_filtrar_por_dificuldade = False, fq_filtrar_por_quantidade = False,
      fq_quantidade_questoes = None, fq_filtrar_por_habilidade = False, fq_habilidades = None\<rparr>"

definition pasta_exemplo :: "int \<Rightarrow> int \<Rightarrow> arquivo_json" where
  "pasta_exemplo a p =
     (if a = 2020 \<and> p = 137 then Conteudo [(''context'', JStr ''texto'')] else Ausente)"

section \<open>The markup parser on concrete and on plain text\<close>

lemma alternativa_sem_prefixo: "\<not> prefix d s \<Longrightarrow> alternativa d s = None"
  by (simp add: alternativa_def)

lemma contem_prefix: "prefix d s \<Longrightarrow> contem d s"
  by (cases s) auto

lemma compiled_pattern_sem_delimitadores:
  assumes "\<not> contem ''**'' s" "\<not> contem ''__'' s" "\<not> contem ''_'' s" "\<not> contem ''^'' s"
  shows "compiled_pattern s = None"
proof -
  have "alternativa d s = None" if "\<not> contem d s" for d
    using that contem_prefix [of d s] by (auto intro: alternativa_sem_prefixo)
  with assms show ?thesis by (simp add: compiled_pattern_def)
qed

lemma finditer_runs_sem_delimitadores:
  "\<not> contem ''**'' s \<Longrightarrow> \<not> contem ''__'' s \<Longrightarrow> \<not> contem ''_'' s \<Longrightarrow> \<not> contem ''^'' s \<Longrightarrow>
   finditer_runs p s = (if p @ s = [] then [] else [add_run (p @ s)])"
proof (induction s arbitrary: p)
  case Nil
  then show ?case by simp
next
  case (Cons c cs)
  have "compiled_pattern (c # cs) = None"
    using Cons.prems by (rule compiled_pattern_sem_delimitadores)
  moreover have "\<not> contem ''**'' cs" "\<not> contem ''__'' cs" "\<not> contem ''_'' cs" "\<not> contem ''^'' cs"
    using Cons.prems by auto
  ultimately show ?case using Cons.IH [of "p @ [c]"] by simp
qed

lemma contem_sublist: "contem d s = sublist d s"
  by (induction s) (simp_all add: sublist_Cons_right)

lemma sublist_strip: "sublist (strip t) t"
proof -
  have "suffix (dropWhile isspace (rev (dropWhile isspace t))) (rev (dropWhile isspace t))"
    by (rule suffix_dropWhile)
  then have "prefix (strip t) (dropWhile isspace t)"
    by (simp add: strip_def suffix_to_prefix)
  moreover have "suffix (dropWhile isspace t) t" by (rule suffix_dropWhile)
  ultimately show ?thesis by (meson sublist_altdef')
qed

lemma suffix_remover_marcador: "suffix (remover_marcador t) t"
proof -
  have d: "suffix r t" if "dropWhile isspace cs = r" "t = c # cs" for r c cs
    using suffix_dropWhile [of isspace cs] that by (auto intro: suffix_ConsI)
  show ?thesis
    unfolding remover_marcador_def
    by (auto split: list.splits dest!: d dest: suffix_ConsD)
qed

lemma sublist_extrair_conteudo: "sublist (extrair_conteudo (strip t)) t"
proof -
  have "sublist (strip (remover_marcador (strip t))) (remover_marcador (strip t))"
    by (rule sublist_strip)
  also have "sublist (remover_marcador (strip t)) (strip t)"
    using suffix_remover_marcador by (rule suffix_imp_sublist)
  finally have "sublist (strip (remover_marcador (strip t))) (strip t)" .
  then have "sublist (extrair_conteudo (strip t)) (strip t)"
    by (simp add: extrair_conteudo_def)
  also have "sublist (strip t) t" by (rule sublist_strip)
  finally show ?thesis .
qed

text \<open>
  C5 (amended). \<open>_aplicar_formatacao\<close> on \<open>**A** and _B_ and ^C^ and __D__\<close> adds seven
  runs, in this order: \<open>A\<close> bold, \<open> and \<close> plain, \<open>B\<close> italic, \<open> and \<close> plain, \<open>C\<close>
  superscript, \<open> and \<close> plain, \<open>D\<close> subscript; the delimiters are gone.
\<close>

theorem C5_sete_runs:
  "aplicar_formatacao ''**A** and _B_ and ^C^ and __D__'' =
     [(add_run ''A'')\<lparr>bold := True\<rparr>, add_run '' and '',
      (add_run ''B'')\<lparr>italic := True\<rparr>, add_run '' and '',
      (add_run ''C'')\<lparr>superscript := True\<rparr>, add_run '' and '',
      (add_run ''D'')\<lparr>subscript := True\<rparr>]"
  by code_simp

text \<open>C5 as stated: the number of runs for that input is not five.\<close>

theorem C5_nao_sao_cinco:
  "length (aplicar_formatacao ''**A** and _B_ and ^C^ and __D__'') \<noteq> 5"
  by code_simp

text \<open>
  C6 (amended). For every text that is not empty and contains none of \<open>**\<close>, \<open>__\<close>,
  \<open>_\<close>, \<open>^\<close>, \<open>_aplicar_formatacao\<close> adds exactly one run, without any attribute,
  whose text is the input. \<open>adicionar_paragrafo_formatado\<close> removes the whitespace around
  the text and a bullet marker at its start before that, and its single run has the
  text that is left; when nothing is left there is no run.
\<close>

theorem C6_um_run:
  assumes "texto \<noteq> []"
    and "\<not> contem ''**'' texto" and "\<not> contem ''__'' texto"
    and "\<not> contem ''_'' texto" and "\<not> contem ''^'' texto"
  shows "aplicar_formatacao texto = [add_run texto]
       \<and> snd (adicionar_paragrafo_formatado texto)
           = (if extrair_conteudo (strip texto) = [] then []
              else [add_run (extrair_conteudo (strip texto))])"
proof
  show "aplicar_formatacao texto = [add_run texto]"
    using assms finditer_runs_sem_delimitadores [of texto "[]"]
    by (simp add: aplicar_formatacao_def)
next
  let ?c = "extrair_conteudo (strip texto)"
  have "\<not> contem d ?c" if "\<not> contem d texto" for d
    using that sublist_extrair_conteudo [of texto] sublist_order.order_trans
    unfolding contem_sublist by blast
  with assms(2-5) have "\<not> contem ''**'' ?c" "\<not> contem ''__'' ?c" "\<not> contem ''_'' ?c" "\<not> contem ''^'' ?c"
    by blast+
  then have "aplicar_formatacao ?c = (if ?c = [] then [] else [add_run ?c])"
    using finditer_runs_sem_delimitadores [of ?c "[]"] by (simp add: aplicar_formatacao_def)
  then show "snd (adicionar_paragrafo_formatado texto) = (if ?c = [] then [] else [add_run ?c])"
    by (simp add: adicionar_paragrafo_formatado_def Let_def)
qed

theorem C6_um_run_witness:
  "'' 2 * 3 = 6 '' \<noteq> [] \<and> \<not> contem ''**'' '' 2 * 3 = 6 '' \<and> \<not> contem ''__'' '' 2 * 3 = 6 ''
   \<and> \<not> contem ''_'' '' 2 * 3 = 6 '' \<and> \<not> contem ''^'' '' 2 * 3 = 6 ''
   \<and> aplicar_formatacao '' 2 * 3 = 6 '' = [add_run '' 2 * 3 = 6 '']
   \<and> snd (adicionar_paragrafo_formatado '' 2 * 3 = 6 '') = [add_run ''2 * 3 = 6'']"
proof -
  have h: "\<not> contem ''**'' '' 2 * 3 = 6 ''" "\<not> contem ''__'' '' 2 * 3 = 6 ''"
    "\<not> contem ''_'' '' 2 * 3 = 6 ''" "\<not> contem ''^'' '' 2 * 3 = 6 ''"
    by (simp_all add: prefix_def)
  have c: "extrair_conteudo (strip '' 2 * 3 = 6 '') = ''2 * 3 = 6''"
    by code_simp
  from C6_um_run [OF _ h] h show ?thesis by (simp add: c)
qed

text \<open>
  C6 as stated: the empty text contains no delimiter, and it gives no run at all
  (\<open>last_index < len(texto)\<close> is false).
\<close>

theorem C6_texto_vazio:
  "\<not> contem ''**'' '''' \<and> \<not> contem ''__'' '''' \<and> \<not> contem ''_'' '''' \<and> \<not> contem ''^'' ''''
   \<and> aplicar_formatacao '''' = []
   \<and> snd (adicionar_paragrafo_formatado '''') = []"
  by code_simp

text \<open>
  C7 at a lone \<open>__\<close>: no closing \<open>__\<close> follows, yet the italic group (group 3) matches
  the two underscores as an italic span with an empty body. The result is an empty run
  with the italic attribute, and the two characters are lost from the text. A lone
  \<open>**\<close>, \<open>_\<close> or \<open>^\<close> is matched by no group and stays plain text.
\<close>

theorem C7_sublinhado_duplo:
  "compiled_pattern ''__'' = Some (3, ''__'', '''')
   \<and> aplicar_formatacao ''__'' = [(add_run '''')\<lparr>italic := True\<rparr>]
   \<and> aplicar_formatacao ''a__b'' = [add_run ''a'', (add_run '''')\<lparr>italic := True\<rparr>, add_run ''b'']
   \<and> aplicar_formatacao ''**'' = [add_run ''**'']
   \<and> aplicar_formatacao ''_'' = [add_run ''_'']
   \<and> aplicar_formatacao ''^'' = [add_run ''^'']"
  by code_simp

section \<open>Facts about the filters\<close>

lemma take_sort_key_menores:
  fixes k :: "'a \<Rightarrow> 'k::linorder" and xs :: "'a list"
  shows "sorted (map k (take n (sort_key k xs)))"
    and "mset (take n (sort_key k xs)) \<subseteq># mset xs"
    and "\<forall>x \<in># mset xs - mset (take n (sort_key k xs)).
           \<forall>r \<in> set (take n (sort_key k xs)). k r \<le> k x"
proof -
  let ?s = "sort_key k xs"
  have srt: "sorted (map k ?s)" by simp
  have ms: "mset xs = mset (take n ?s) + mset (drop n ?s)"
    unfolding union_code by simp
  show "sorted (map k (take n ?s))"
    using srt by (metis sorted_wrt_take take_map)
  show "mset (take n ?s) \<subseteq># mset xs" by (simp add: ms)
  have "sorted (map k (take n ?s) @ map k (drop n ?s))"
    using srt by (simp flip: map_append)
  then have "\<forall>r \<in> set (take n ?s). \<forall>x \<in> set (drop n ?s). k r \<le> k x"
    by (auto simp: sorted_append)
  moreover have "mset xs - mset (take n ?s) = mset (drop n ?s)" by (simp add: ms)
  ultimately show "\<forall>x \<in># mset xs - mset (take n ?s). \<forall>r \<in> set (take n ?s). k r \<le> k x"
    by auto
qed

lemma limites_filtrar_por_dificuldade:
  "r \<in> set (filtrar_por_dificuldade df mn mx) \<Longrightarrow>
     (mn \<noteq> 0 \<longrightarrow> dif_ge r mn) \<and> (mx \<noteq> 2000 \<longrightarrow> dif_le r mx)"
  by (auto simp: filtrar_por_dificuldade_def Let_def split: if_splits)

lemma str_int_anos: "str_int 2020 = ''2020''" "str_int 2021 = ''2021''"
  by code_simp+

lemma obter_provas_MT:
  "obter_provas_escolhidas ''2020'' [''MT''] = ([(''MT'', 587)], [])"
  "obter_provas_escolhidas ''2021'' [''MT''] = ([(''MT'', 899)], [])"
  by (simp_all add: obter_provas_escolhidas_def provas_regulares_def)

lemma aplicar_filtros_so_dificuldade:
  assumes "\<not> posicoes_ativas f" "\<not> habilidade_ativa f" "filtrar_dificuldade f"
    and "obter_provas_escolhidas a ms = (ps, lg)" "ps \<noteq> []"
  shows "aplicar_filtros d a ms f =
    (Inr (filtrar_por_dificuldade
            (filter (\<lambda>r. SG_AREA r \<in> set ms \<and> CO_PROVA r \<in> set (map snd ps)) d)
            (min_dif f) (max_dif f)), lg)"
  using assms by (simp add: aplicar_filtros_def)

lemma mset_filtrar_por_dificuldade:
  "mset (filtrar_por_dificuldade d mn mx) \<subseteq># mset d"
  by (simp add: filtrar_por_dificuldade_def Let_def)

lemma sorted_filtrar_por_dificuldade:
  "sorted (map chave_dificuldade (filtrar_por_dificuldade df mn mx))"
  by (simp add: filtrar_por_dificuldade_def Let_def)

lemma sort_dois_anos:
  fixes xs ys :: "linha_ano list"
  assumes "\<forall>r\<in>set xs. ANO r = a" "\<forall>r\<in>set ys. ANO r = b" "a < b"
    and "sorted (map chave_dificuldade xs)" "sorted (map chave_dificuldade ys)"
    and "zs = xs @ ys \<or> zs = ys @ xs"
  shows "sort_key chave_ano_dificuldade zs = xs @ ys"
proof (rule properties_for_sort_key)
  show "mset (xs @ ys) = mset zs" using assms(6) by auto
next
  have "sorted (map chave_ano_dificuldade xs)" "sorted (map chave_ano_dificuldade ys)"
    using assms(1,2,4,5)
    by (auto simp: sorted_map chave_ano_dificuldade_def sorted_wrt_iff_nth_less)
  moreover have "\<forall>x\<in>set xs. \<forall>y\<in>set ys. chave_ano_dificuldade x \<le> chave_ano_dificuldade y"
    using assms(1,2,3) by (auto simp: chave_ano_dificuldade_def)
  ultimately show "sorted (map chave_ano_dificuldade (xs @ ys))"
    by (auto simp: sorted_append)
next
  fix k assume "k \<in> set (xs @ ys)"
  have x: "filter (\<lambda>r. chave_ano_dificuldade k = chave_ano_dificuldade r) ys = []" if "k \<in> set xs"
    using that assms(1,2,3) by (auto simp: chave_ano_dificuldade_def filter_empty_conv)
  have y: "filter (\<lambda>r. chave_ano_dificuldade k = chave_ano_dificuldade r) xs = []" if "k \<in> set ys"
    using that assms(1,2,3) by (auto simp: chave_ano_dificuldade_def filter_empty_conv)
  from \<open>k \<in> set (xs @ ys)\<close> assms(6) x y
  show "filter (\<lambda>r. chave_ano_dificuldade k = chave_ano_dificuldade r) (xs @ ys)
      = filter (\<lambda>r. chave_ano_dificuldade k = chave_ano_dificuldade r) zs"
    by auto
qed


lemma com_numero_colunas:
  "NUMERO_QUESTAO (com_numero n r) = n" "ANO (com_numero n r) = ANO r"
  "colunas_da_tabela (com_numero n r) = colunas_da_tabela r"
  by (simp_all add: com_numero_def colunas_da_tabela_def)

lemma numerar_colunas:
  "length (numerar xs) = length xs"
  "map NUMERO_QUESTAO (numerar xs) = map (\<lambda>i. int i + 1) [0..<length xs]"
  "map ANO (numerar xs) = map ANO xs"
  "map colunas_da_tabela (numerar xs) = map colunas_da_tabela xs"
proof -
  have e: "enumerate 0 xs = zip [0..<length xs] xs" by (simp add: enumerate_eq_zip)
  have z1: "map (g \<circ> fst) (zip [0..<length xs] xs) = map g [0..<length xs]" for g :: "nat \<Rightarrow> int"
    by (metis map_map map_fst_zip length_upt diff_zero)
  have z2: "map (h \<circ> snd) (zip [0..<length xs] xs) = map h xs" for h :: "linha_ano \<Rightarrow> 'b"
    by (metis map_map map_snd_zip length_upt diff_zero)
  show "length (numerar xs) = length xs" by (simp add: numerar_def)
  have "map NUMERO_QUESTAO (numerar xs) = map ((\<lambda>i. int i + 1) \<circ> fst) (zip [0..<length xs] xs)"
    unfolding numerar_def e by (simp add: com_numero_colunas case_prod_unfold o_def)
  then show "map NUMERO_QUESTAO (numerar xs) = map (\<lambda>i. int i + 1) [0..<length xs]"
    by (simp only: z1)
  have "map ANO (numerar xs) = map (ANO \<circ> snd) (zip [0..<length xs] xs)"
    unfolding numerar_def e by (simp add: com_numero_colunas case_prod_unfold o_def)
  then show "map ANO (numerar xs) = map ANO xs" by (simp only: z2)
  have "map colunas_da_tabela (numerar xs) = map (colunas_da_tabela \<circ> snd) (zip [0..<length xs] xs)"
    unfolding numerar_def e by (simp add: com_numero_colunas case_prod_unfold o_def)
  then show "map colunas_da_tabela (numerar xs) = map colunas_da_tabela xs" by (simp only: z2)
qed

lemma colunas_com_ano: "colunas_da_tabela (com_ano a r) = r" "ANO (com_ano a r) = a"
  "chave_dificuldade (com_ano a r) = chave_dificuldade r"
  by (simp_all add: colunas_da_tabela_def com_ano_def chave_dificuldade_def)

lemma filtrar_anos_MT:
  assumes "\<not> posicoes_ativas f" "\<not> habilidade_ativa f" "filtrar_dificuldade f"
    and "\<And>y. y \<in> {2020, 2021} \<Longrightarrow> filter (\<lambda>r. ANO_PROVA r = y) d = filter (\<lambda>r. ANO_PROVA r = y) df"
  shows "filtrar_anos d [2020, 2021] [''MT''] f =
           (Inr (map (com_ano ''2020'') (questoes_do_ano df 2020 ''MT'' 587 f)
               @ map (com_ano ''2021'') (questoes_do_ano df 2021 ''MT'' 899 f)), [])"
    and "filtrar_anos d [2021, 2020] [''MT''] f =
           (Inr (map (com_ano ''2021'') (questoes_do_ano df 2021 ''MT'' 899 f)
               @ map (com_ano ''2020'') (questoes_do_ano df 2020 ''MT'' 587 f)), [])"
proof -
  have a: "aplicar_filtros (filter (\<lambda>r. ANO_PROVA r = 2020) d) ''2020'' [''MT''] f =
             (Inr (questoes_do_ano df 2020 ''MT'' 587 f), [])"
    using aplicar_filtros_so_dificuldade [OF assms(1-3) obter_provas_MT(1)] assms(4) [of 2020]
    by (simp add: questoes_do_ano_def conj_commute conj_left_commute)
  have b: "aplicar_filtros (filter (\<lambda>r. ANO_PROVA r = 2021) d) ''2021'' [''MT''] f =
             (Inr (questoes_do_ano df 2021 ''MT'' 899 f), [])"
    using aplicar_filtros_so_dificuldade [OF assms(1-3) obter_provas_MT(2)] assms(4) [of 2021]
    by (simp add: questoes_do_ano_def conj_commute conj_left_commute)
  show "filtrar_anos d [2020, 2021] [''MT''] f =
           (Inr (map (com_ano ''2020'') (questoes_do_ano df 2020 ''MT'' 587 f)
               @ map (com_ano ''2021'') (questoes_do_ano df 2021 ''MT'' 899 f)), [])"
    by (simp add: a b str_int_anos)
  show "filtrar_anos d [2021, 2020] [''MT''] f =
           (Inr (map (com_ano ''2021'') (questoes_do_ano df 2021 ''MT'' 899 f)
               @ map (com_ano ''2020'') (questoes_do_ano df 2020 ''MT'' 587 f)), [])"
    by (simp add: a b str_int_anos)
qed


lemma globais_dois_anos:
  fixes A B :: "linha list"
  assumes "\<not> posicoes_ativas f" "filtrar_quantidade f" "quantidade f = Some 10"
    and "10 \<le> length A"
    and "sorted (map chave_dificuldade A)" "sorted (map chave_dificuldade B)"
    and "C = map (com_ano ''2020'') A @ map (com_ano ''2021'') B
       \<or> C = map (com_ano ''2021'') B @ map (com_ano ''2020'') A"
  shows "fst (aplicar_filtros_globais C f) = map (com_ano ''2020'') (take 10 A)"
proof -
  let ?tA = "map (com_ano ''2020'') A" and ?tB = "map (com_ano ''2021'') B"
  have len: "length C = length A + length B" using assms(7) by auto
  have qa: "quantidade_ativa f" using assms(2,3) by (simp add: quantidade_ativa_def)
  have ne: "C \<noteq> []" using len assms(4) by auto
  have srt: "sort_key chave_ano_dificuldade C = ?tA @ ?tB"
  proof (rule sort_dois_anos [where a = "''2020''" and b = "''2021''"])
    show "(''2020'' :: string) < ''2021''" by simp
    show "sorted (map chave_dificuldade ?tA)" "sorted (map chave_dificuldade ?tB)"
      using assms(5,6) by (simp_all add: o_def colunas_com_ano)
    show "C = ?tA @ ?tB \<or> C = ?tB @ ?tA" by (rule assms(7))
  qed (simp_all add: colunas_com_ano)
  show ?thesis
  proof (cases "int (length C) > 10")
    case True
    then have "fst (aplicar_filtros_globais C f) = take 10 (?tA @ ?tB)"
      using qa ne assms(1,3) by (simp add: aplicar_filtros_globais_def head_def srt)
    also have "\<dots> = map (com_ano ''2020'') (take 10 A)"
      using assms(4) by (simp add: take_map)
    finally show ?thesis .
  next
    case False
    with len assms(4) have "length A = 10" "length B = 0" by linarith+
    then have "length A = 10" "B = []" by simp_all
    with assms(7) have "C = ?tA" "take 10 A = A" by auto
    with False qa ne assms(3) show ?thesis
      by (simp add: aplicar_filtros_globais_def)
  qed
qed

lemma carregar_questoes_dois_anos:
  assumes "anos = [2020, 2021] \<or> anos = [2021, 2020]"
    and "\<not> posicoes_ativas f" and "\<not> habilidade_ativa f" and "filtrar_dificuldade f"
    and "filtrar_quantidade f" and "quantidade f = Some 10"
    and "10 \<le> length (questoes_do_ano df 2020 ''MT'' 587 f)"
  shows "fst (carregar_questoes df anos [''MT''] f) =
           Inr (numerar (map (com_ano ''2020'') (take 10 (questoes_do_ano df 2020 ''MT'' 587 f))))"
proof -
  let ?A = "questoes_do_ano df 2020 ''MT'' 587 f" and ?B = "questoes_do_ano df 2021 ''MT'' 899 f"
  define d where "d = filter (\<lambda>r. ANO_PROVA r \<in> set anos) df"
  from assms(7) obtain r where r: "r \<in> set ?A" by (cases ?A) auto
  have "set ?A \<subseteq> set (filter (\<lambda>r. ANO_PROVA r = 2020 \<and> SG_AREA r = ''MT'' \<and> CO_PROVA r = 587) df)"
    unfolding questoes_do_ano_def
    using set_mset_mono [OF mset_filtrar_por_dificuldade] by (simp only: set_mset_mset)
  with r have rd: "r \<in> set df" "ANO_PROVA r = 2020" by auto
  then have ne: "df \<noteq> []" "d \<noteq> []" using assms(1) by (auto simp: d_def filter_empty_conv)
  have yr: "filter (\<lambda>r. ANO_PROVA r = y) d = filter (\<lambda>r. ANO_PROVA r = y) df" if "y \<in> {2020, 2021}" for y
    using that assms(1) by (auto simp: d_def intro: filter_cong)
  note fa = filtrar_anos_MT [OF assms(2-4) yr]
  have "\<exists>C. filtrar_anos d anos [''MT''] f = (Inr C, [])
          \<and> (C = map (com_ano ''2020'') ?A @ map (com_ano ''2021'') ?B
           \<or> C = map (com_ano ''2021'') ?B @ map (com_ano ''2020'') ?A)"
    using assms(1)
  proof
    assume "anos = [2020, 2021]"
    then have "filtrar_anos d anos [''MT''] f
        = (Inr (map (com_ano ''2020'') ?A @ map (com_ano ''2021'') ?B), [])"
      using fa(1) by (simp only:)
    then show ?thesis by blast
  next
    assume "anos = [2021, 2020]"
    then have "filtrar_anos d anos [''MT''] f
        = (Inr (map (com_ano ''2021'') ?B @ map (com_ano ''2020'') ?A), [])"
      using fa(2) by (simp only:)
    then show ?thesis by blast
  qed
  then obtain C where C: "filtrar_anos d anos [''MT''] f = (Inr C, [])"
    and C': "C = map (com_ano ''2020'') ?A @ map (com_ano ''2021'') ?B
           \<or> C = map (com_ano ''2021'') ?B @ map (com_ano ''2020'') ?A"
    by blast
  have "fst (aplicar_filtros_globais C f) = map (com_ano ''2020'') (take 10 ?A)"
    using assms(2,5,6,7) _ _ C'
    by (rule globais_dois_anos) (simp_all add: questoes_do_ano_def sorted_filtrar_por_dificuldade)
  then show ?thesis
    using ne C by (simp add: carregar_questoes_def case_prod_unfold flip: d_def)
qed


lemma um_a_dez: "map (\<lambda>i. int i + 1) [0..<10] = [1..10]"
  by code_simp

lemma mt2020_tabela:
  "filter (\<lambda>r. ANO_PROVA r = 2020 \<and> SG_AREA r = ''MT'' \<and> CO_PROVA r = 587) tabela_dois_anos =
     map (\<lambda>i. linha_exemplo 2020 ''MT'' (135 + i) 587 (Some (real_of_int (100 + i)))) [1..50]"
proof -
  have "filter (\<lambda>r. ANO_PROVA r = 2020 \<and> SG_AREA r = ''MT'' \<and> CO_PROVA r = 587)
          (concat (map (\<lambda>i. [linha_exemplo 2020 ''MT'' (135 + i) 587 (Some (real_of_int (100 + i))),
                             linha_exemplo 2020 ''LC'' i 577 (Some (real_of_int i)),
                             linha_exemplo 2021 ''MT'' (135 + i) 899 (Some (real_of_int i)),
                             linha_exemplo 2021 ''LC'' i 889 (Some (real_of_int i))]) L))
      = map (\<lambda>i. linha_exemplo 2020 ''MT'' (135 + i) 587 (Some (real_of_int (100 + i)))) L" for L
    by (induction L) (simp_all add: linha_exemplo_def)
  then show ?thesis by (simp only: tabela_dois_anos_def)
qed

lemma questoes_2020_tabela:
  "questoes_do_ano tabela_dois_anos 2020 ''MT'' 587 filtros_dez =
     map (\<lambda>i. linha_exemplo 2020 ''MT'' (135 + i) 587 (Some (real_of_int (100 + i)))) [1..50]"
proof -
  let ?g = "\<lambda>i. linha_exemplo 2020 ''MT'' (135 + i) 587 (Some (real_of_int (100 + i)))"
  let ?L = "map ?g [1..50]"
  have f: "filter (\<lambda>r. dif_ge r 1) ?L = ?L"
    by (auto simp: filter_id_conv dif_ge_def linha_exemplo_def)
  have "sorted_wrt (\<lambda>x y. chave_dificuldade (?g x) \<le> chave_dificuldade (?g y)) [1..50]"
    using sorted_upto [of 1 50]
    by (rule sorted_wrt_mono_rel [rotated]) (simp add: chave_dificuldade_def linha_exemplo_def)
  then have s: "sorted (map chave_dificuldade ?L)"
    by (simp only: sorted_map sorted_wrt_map)
  have ne: "?L \<noteq> []" by simp
  have "filtrar_por_dificuldade ?L 1 2000 = sort_key chave_dificuldade (filter (\<lambda>r. dif_ge r 1) ?L)"
    using ne by (simp only: filtrar_por_dificuldade_def Let_def) simp
  also have "\<dots> = ?L" unfolding f using s by (rule sort_key_id_if_sorted)
  finally show ?thesis
    by (simp add: questoes_do_ano_def mt2020_tabela filtros_dez_def filtros_padrao_def)
qed

lemma dez_primeiras_2020:
  "take 10 (questoes_do_ano tabela_dois_anos 2020 ''MT'' 587 filtros_dez) =
     map (\<lambda>i. linha_exemplo 2020 ''MT'' (135 + i) 587 (Some (real_of_int (100 + i)))) [1..10]"
proof -
  have "[1..50] = [1..10] @ [10 + 1..50]" by (rule upto_split2) simp_all
  then show ?thesis by (simp add: questoes_2020_tabela)
qed

section \<open>Facts about the position filter\<close>

lemma posicoes_drop_duplicates:
  "CO_POSICAO ` set (drop_duplicates vistos rs) = CO_POSICAO ` set rs - set vistos"
  by (induction rs arbitrary: vistos) auto

lemma distinct_drop_duplicates:
  "distinct (map CO_POSICAO (drop_duplicates vistos rs))"
proof (induction rs arbitrary: vistos)
  case Nil
  then show ?case by simp
next
  case (Cons r rs)
  have "CO_POSICAO r \<notin> CO_POSICAO ` set (drop_duplicates (CO_POSICAO r # vistos) rs)"
    by (simp add: posicoes_drop_duplicates)
  with Cons show ?case by simp
qed

lemma primeira_drop_duplicates:
  "r \<in> set (drop_duplicates vistos rs) \<Longrightarrow> find (\<lambda>x. CO_POSICAO x = CO_POSICAO r) rs = Some r"
proof (induction rs arbitrary: vistos)
  case Nil
  then show ?case by simp
next
  case (Cons r0 rs)
  show ?case
  proof (cases "CO_POSICAO r0 \<in> set vistos")
    case True
    with Cons.prems have r: "r \<in> set (drop_duplicates vistos rs)" by simp
    then have "CO_POSICAO r \<in> CO_POSICAO ` set (drop_duplicates vistos rs)" by (rule imageI)
    then have "CO_POSICAO r \<notin> set vistos" by (simp add: posicoes_drop_duplicates)
    with True have "CO_POSICAO r0 \<noteq> CO_POSICAO r" by auto
    with Cons.IH [OF r] show ?thesis by simp
  next
    case False
    with Cons.prems consider "r = r0" | "r \<in> set (drop_duplicates (CO_POSICAO r0 # vistos) rs)"
      by auto
    then show ?thesis
    proof cases
      case 1
      then show ?thesis by simp
    next
      case 2
      then have "CO_POSICAO r \<in> CO_POSICAO ` set (drop_duplicates (CO_POSICAO r0 # vistos) rs)"
        by (rule imageI)
      then have "CO_POSICAO r0 \<noteq> CO_POSICAO r" by (auto simp: posicoes_drop_duplicates)
      with Cons.IH [OF 2] show ?thesis by simp
    qed
  qed
qed

lemma find_filter:
  "(\<And>x. P x \<Longrightarrow> Q x) \<Longrightarrow> find P (filter Q xs) = find P xs"
  by (induction xs) auto

lemma codigo_categoria_distinct:
  "distinct ps \<Longrightarrow> map (codigo_categoria ps) ps = [0..<length ps]"
proof (induction ps)
  case Nil
  then show ?case by simp
next
  case (Cons c cs)
  then have "map (codigo_categoria (c # cs)) cs = map (Suc \<circ> codigo_categoria cs) cs"
    by auto
  also have "\<dots> = map Suc [0..<length cs]"
    using Cons by (simp flip: map_map)
  finally have eq: "map (codigo_categoria (c # cs)) cs = map Suc [0..<length cs]" .
  have "[0..<length (c # cs)] = 0 # map Suc [0..<length cs]"
    by (simp add: map_Suc_upt upt_conv_Cons del: upt_Suc)
  moreover have "map (codigo_categoria (c # cs)) (c # cs) = 0 # map (codigo_categoria (c # cs)) cs"
    by simp
  ultimately show ?case using eq by (simp only:)
qed

lemma ordenar_por_categoria:
  assumes "distinct ps" "distinct (map CO_POSICAO rs)" "CO_POSICAO ` set rs = set ps"
  shows "map CO_POSICAO (sort_key (\<lambda>r. codigo_categoria ps (CO_POSICAO r)) rs) = ps"
proof -
  let ?g = "codigo_categoria ps"
  let ?s = "sort_key (\<lambda>r. ?g (CO_POSICAO r)) rs"
  have inj: "inj_on ?g (set ps)"
    using codigo_categoria_distinct [OF assms(1)] distinct_upt [of 0 "length ps"]
    by (metis distinct_map)
  have set_s: "set (map CO_POSICAO ?s) = set ps" using assms(3) by simp
  have dist_s: "distinct (map CO_POSICAO ?s)"
    using assms(2) by (metis distinct_map distinct_sort set_sort)
  have s1: "sorted (map ?g (map CO_POSICAO ?s))"
    using sorted_sort_key [of "\<lambda>r. ?g (CO_POSICAO r)" rs] by (simp add: o_def)
  have s2: "distinct (map ?g (map CO_POSICAO ?s))"
    using dist_s inj set_s by (simp only: distinct_map)
  have s3: "set (map ?g (map CO_POSICAO ?s)) = set (map ?g ps)"
    using set_s by (metis list.set_map)
  have s4: "sorted (map ?g ps)" "distinct (map ?g ps)"
    by (simp_all add: codigo_categoria_distinct [OF assms(1)])
  from s1 s2 s4 s3 have "map ?g (map CO_POSICAO ?s) = map ?g ps"
    by (rule sorted_distinct_set_unique)
  moreover have "inj_on ?g (set (map CO_POSICAO ?s) \<union> set ps)"
    using inj set_s by simp
  ultimately show ?thesis by (rule map_inj_on)
qed

lemma posicoes_exemplo:
  "posicoes_da_string ''111 109'' = [111, 109]" "posicoes_da_string ''109 109'' = [109, 109]"
  by code_simp+

section \<open>Facts about years and subjects without an exam code\<close>

















section \<open>The cap on the number of questions\<close>

text \<open>
  C1 (amended). Years 2020 and 2021, subject MT, a cap of 10 and no position or skill
  filter, on any table in which at least 10 MT rows of 2020 are left by the difficulty
  stage: the result has exactly 10 questions, numbered 1 to 10, all of them of 2020,
  and they are the first 10 of the MT rows of 2020 in ascending difficulty. The cap
  sorts by year before difficulty, so no row of 2021 is chosen, whatever its difficulty.
\<close>

theorem C1_dez_do_primeiro_ano:
  assumes "anos = [2020, 2021] \<or> anos = [2021, 2020]"
    and "\<not> posicoes_ativas f" and "\<not> habilidade_ativa f" and "filtrar_dificuldade f"
    and "filtrar_quantidade f" and "quantidade f = Some 10"
    and "10 \<le> length (questoes_do_ano df 2020 ''MT'' 587 f)"
  shows "\<exists>rs. fst (carregar_questoes df anos [''MT''] f) = Inr rs
           \<and> length rs = 10
           \<and> map NUMERO_QUESTAO rs = [1..10]
           \<and> (\<forall>r \<in> set rs. ANO r = ''2020'')
           \<and> map colunas_da_tabela rs = take 10 (questoes_do_ano df 2020 ''MT'' 587 f)
           \<and> sorted (map chave_dificuldade (questoes_do_ano df 2020 ''MT'' 587 f))"
proof -
  let ?A = "questoes_do_ano df 2020 ''MT'' 587 f"
  let ?rs = "numerar (map (com_ano ''2020'') (take 10 ?A))"
  have len: "length (map (com_ano ''2020'') (take 10 ?A)) = 10"
    using assms(7) by simp
  have a1: "fst (carregar_questoes df anos [''MT''] f) = Inr ?rs"
    using assms by (rule carregar_questoes_dois_anos)
  have a2: "length ?rs = 10"
    using len by (simp only: numerar_colunas)
  have a3: "map NUMERO_QUESTAO ?rs = [1..10]"
    by (simp only: numerar_colunas len um_a_dez)
  have a4: "\<forall>r \<in> set ?rs. ANO r = ''2020''"
  proof
    fix r assume "r \<in> set ?rs"
    then have "ANO r \<in> set (map ANO ?rs)" by simp
    then have "ANO r \<in> set (map ANO (map (com_ano ''2020'') (take 10 ?A)))"
      by (simp only: numerar_colunas)
    then show "ANO r = ''2020''" by (auto simp: colunas_com_ano)
  qed
  have a5: "map colunas_da_tabela ?rs = take 10 ?A"
    by (simp add: numerar_colunas o_def colunas_com_ano)
  have a6: "sorted (map chave_dificuldade ?A)"
    by (simp add: questoes_do_ano_def sorted_filtrar_por_dificuldade)
  show ?thesis
    by (rule exI [of _ ?rs]) (intro conjI a1 a2 a3 a4 a5 a6)
qed

theorem C1_dez_do_primeiro_ano_witness:
  "10 \<le> length (questoes_do_ano tabela_dois_anos 2020 ''MT'' 587 filtros_dez)
   \<and> (\<exists>rs. fst (carregar_questoes tabela_dois_anos [2021, 2020] [''MT''] filtros_dez) = Inr rs
           \<and> length rs = 10
           \<and> map NUMERO_QUESTAO rs = [1..10]
           \<and> (\<forall>r \<in> set rs. ANO r = ''2020'')
           \<and> map colunas_da_tabela rs
               = take 10 (questoes_do_ano tabela_dois_anos 2020 ''MT'' 587 filtros_dez)
           \<and> sorted (map chave_dificuldade
                 (questoes_do_ano tabela_dois_anos 2020 ''MT'' 587 filtros_dez)))"
proof -
  have h: "10 \<le> length (questoes_do_ano tabela_dois_anos 2020 ''MT'' 587 filtros_dez)"
    by (simp add: questoes_2020_tabela)
  have f: "\<not> posicoes_ativas filtros_dez" "\<not> habilidade_ativa filtros_dez"
    "filtrar_dificuldade filtros_dez" "filtrar_quantidade filtros_dez"
    "quantidade filtros_dez = Some 10"
    by (simp_all add: filtros_dez_def filtros_padrao_def posicoes_ativas_def habilidade_ativa_def)
  from C1_dez_do_primeiro_ano [OF _ f h, of "[2021, 2020]"] h show ?thesis by simp
qed

text \<open>
  C1 as stated, on a table with 50 MT rows (and 50 LC rows) for each of 2020 and 2021:
  the ten questions have the difficulties 101 to 110 and are all of 2020, although the
  table has MT rows of 2021 with the difficulties 1 to 50. They are not the ten rows of
  lowest difficulty of both years.
\<close>

theorem C1_nao_sao_as_menores:
  "map resumo
     (case fst (carregar_questoes tabela_dois_anos [2020, 2021] [''MT''] filtros_dez) of
        Inr rs \<Rightarrow> rs | Inl e \<Rightarrow> [])
     = [(1, ''2020'', ''MT'', Some 101), (2, ''2020'', ''MT'', Some 102),
        (3, ''2020'', ''MT'', Some 103), (4, ''2020'', ''MT'', Some 104),
        (5, ''2020'', ''MT'', Some 105), (6, ''2020'', ''MT'', Some 106),
        (7, ''2020'', ''MT'', Some 107), (8, ''2020'', ''MT'', Some 108),
        (9, ''2020'', ''MT'', Some 109), (10, ''2020'', ''MT'', Some 110)]
   \<and> linha_exemplo 2021 ''MT'' 136 899 (Some 1) \<in> set tabela_dois_anos"
proof -
  have f: "\<not> posicoes_ativas filtros_dez" "\<not> habilidade_ativa filtros_dez"
    "filtrar_dificuldade filtros_dez" "filtrar_quantidade filtros_dez"
    "quantidade filtros_dez = Some 10"
    by (simp_all add: filtros_dez_def filtros_padrao_def posicoes_ativas_def habilidade_ativa_def)
  have h: "10 \<le> length (questoes_do_ano tabela_dois_anos 2020 ''MT'' 587 filtros_dez)"
    by (simp add: questoes_2020_tabela)
  have "fst (carregar_questoes tabela_dois_anos [2020, 2021] [''MT''] filtros_dez) =
          Inr (numerar (map (com_ano ''2020'')
            (take 10 (questoes_do_ano tabela_dois_anos 2020 ''MT'' 587 filtros_dez))))"
    using _ f h by (rule carregar_questoes_dois_anos) simp
  then have "map resumo
     (case fst (carregar_questoes tabela_dois_anos [2020, 2021] [''MT''] filtros_dez) of
        Inr rs \<Rightarrow> rs | Inl e \<Rightarrow> [])
     = [(1, ''2020'', ''MT'', Some 101), (2, ''2020'', ''MT'', Some 102),
        (3, ''2020'', ''MT'', Some 103), (4, ''2020'', ''MT'', Some 104),
        (5, ''2020'', ''MT'', Some 105), (6, ''2020'', ''MT'', Some 106),
        (7, ''2020'', ''MT'', Some 107), (8, ''2020'', ''MT'', Some 108),
        (9, ''2020'', ''MT'', Some 109), (10, ''2020'', ''MT'', Some 110)]"
    by (simp add: dez_primeiras_2020 numerar_def resumo_def com_numero_def com_ano_def
          linha_exemplo_def upto.simps)
  moreover have "linha_exemplo 2021 ''MT'' 136 899 (Some 1) \<in> set tabela_dois_anos"
    by (auto simp: tabela_dois_anos_def linha_exemplo_def intro!: bexI [where x = 1])
  ultimately show ?thesis by (rule conjI)
qed

text \<open>
  C2. With an active cap \<open>q > 0\<close> on a combined result of \<open>M\<close> rows: when \<open>M \<le> q\<close> the
  cap stage returns the rows unchanged; when \<open>M > q\<close> and no position filter is active,
  exactly \<open>q\<close> rows are returned, in ascending order of (year, difficulty), all taken
  from the input, and every row left out is at least as large as every row returned.
\<close>

theorem C2_limite_quantidade:
  assumes "quantidade_ativa f" and "quantidade f = Some q" and "0 < q"
  shows "(int (length df) \<le> q \<longrightarrow> fst (aplicar_filtros_globais df f) = df)
       \<and> (int (length df) > q \<and> \<not> posicoes_ativas f \<longrightarrow>
            (let rs = fst (aplicar_filtros_globais df f) in
               int (length rs) = q
             \<and> sorted (map chave_ano_dificuldade rs)
             \<and> mset rs \<subseteq># mset df
             \<and> (\<forall>x \<in># mset df - mset rs. \<forall>r \<in> set rs.
                   chave_ano_dificuldade r \<le> chave_ano_dificuldade x)))"
proof (intro conjI impI)
  assume "int (length df) \<le> q"
  with assms show "fst (aplicar_filtros_globais df f) = df"
    by (simp add: aplicar_filtros_globais_def)
next
  assume h: "int (length df) > q \<and> \<not> posicoes_ativas f"
  with assms have df: "df \<noteq> []" by auto
  have rs: "fst (aplicar_filtros_globais df f) = take (nat q) (sort_key chave_ano_dificuldade df)"
    using assms h df by (simp add: aplicar_filtros_globais_def head_def)
  have len: "int (length (take (nat q) (sort_key chave_ano_dificuldade df))) = q"
    using h assms(3) by (simp add: min_def) linarith
  show "let rs = fst (aplicar_filtros_globais df f) in
               int (length rs) = q
             \<and> sorted (map chave_ano_dificuldade rs)
             \<and> mset rs \<subseteq># mset df
             \<and> (\<forall>x \<in># mset df - mset rs. \<forall>r \<in> set rs.
                   chave_ano_dificuldade r \<le> chave_ano_dificuldade x)"
    unfolding rs Let_def
    using len take_sort_key_menores [where k = chave_ano_dificuldade and n = "nat q" and xs = df]
    by blast
qed

theorem C2_limite_quantidade_witness:
  "quantidade_ativa (filtros_padrao\<lparr>filtrar_quantidade := True, quantidade := Some 2\<rparr>)
   \<and> fst (aplicar_filtros_globais
        [com_ano ''2021'' (linha_exemplo 2021 ''MT'' 136 899 (Some 1))]
        (filtros_padrao\<lparr>filtrar_quantidade := True, quantidade := Some 2\<rparr>))
       = [com_ano ''2021'' (linha_exemplo 2021 ''MT'' 136 899 (Some 1))]
   \<and> fst (aplicar_filtros_globais
        [com_ano ''2021'' (linha_exemplo 2021 ''MT'' 136 899 (Some 1)),
         com_ano ''2020'' (linha_exemplo 2020 ''MT'' 137 587 (Some 5)),
         com_ano ''2020'' (linha_exemplo 2020 ''MT'' 136 587 (Some 3))]
        (filtros_padrao\<lparr>filtrar_quantidade := True, quantidade := Some 2\<rparr>))
       = [com_ano ''2020'' (linha_exemplo 2020 ''MT'' 136 587 (Some 3)),
          com_ano ''2020'' (linha_exemplo 2020 ''MT'' 137 587 (Some 5))]"
proof -
  let ?f = "filtros_padrao\<lparr>filtrar_quantidade := True, quantidade := Some 2\<rparr>"
  let ?r1 = "com_ano ''2021'' (linha_exemplo 2021 ''MT'' 136 899 (Some 1))"
  let ?r5 = "com_ano ''2020'' (linha_exemplo 2020 ''MT'' 137 587 (Some 5))"
  let ?r3 = "com_ano ''2020'' (linha_exemplo 2020 ''MT'' 136 587 (Some 3))"
  have h: "quantidade_ativa ?f" "quantidade ?f = Some 2" "(0::int) < 2" "\<not> posicoes_ativas ?f"
    by (simp_all add: quantidade_ativa_def posicoes_ativas_def filtros_padrao_def)
  note c = C2_limite_quantidade [OF h(1-3)]
  from c [of "[?r1]"] have a: "fst (aplicar_filtros_globais [?r1] ?f) = [?r1]" by simp
  from c [of "[?r1, ?r5, ?r3]"] h(4)
  have "length (fst (aplicar_filtros_globais [?r1, ?r5, ?r3] ?f)) = 2" by (simp add: Let_def)
  moreover have "fst (aplicar_filtros_globais [?r1, ?r5, ?r3] ?f) = [?r3, ?r5]"
    by (simp add: aplicar_filtros_globais_def quantidade_ativa_def posicoes_ativas_def head_def
          chave_ano_dificuldade_def chave_dificuldade_def com_ano_def linha_exemplo_def
          filtros_padrao_def)
  ultimately show ?thesis using h(1) a by (simp only: simp_thms)
qed

section \<open>The difficulty stage\<close>

text \<open>
  C4 (amended). Without a position filter, the rows of a year that the difficulty stage
  returns are in ascending order of difficulty, and each of them has a difficulty of at
  least \<open>min_dif\<close> unless \<open>min_dif = 0\<close>, and of at most \<open>max_dif\<close> unless
  \<open>max_dif = 2000\<close>: the values 0 and 2000 mean that the bound is not applied.
\<close>

theorem C4_intervalo_dificuldade:
  assumes "\<not> posicoes_ativas f" and "filtrar_dificuldade f"
  shows "\<exists>rs. fst (aplicar_filtros df a materias f) = Inr rs
           \<and> (\<forall>r \<in> set rs. (min_dif f \<noteq> 0 \<longrightarrow> dif_ge r (min_dif f))
                           \<and> (max_dif f \<noteq> 2000 \<longrightarrow> dif_le r (max_dif f)))
           \<and> sorted (map chave_dificuldade rs)"
  using assms
  by (auto simp: aplicar_filtros_def Let_def sorted_filtrar_por_dificuldade
           dest: limites_filtrar_por_dificuldade split: prod.splits)

theorem C4_intervalo_dificuldade_witness:
  "\<not> posicoes_ativas (filtros_padrao\<lparr>min_dif := 100, max_dif := 500\<rparr>)
   \<and> filtrar_dificuldade (filtros_padrao\<lparr>min_dif := 100, max_dif := 500\<rparr>)
   \<and> fst (aplicar_filtros
        [linha_exemplo 2020 ''MT'' 136 587 (Some 300), linha_exemplo 2020 ''MT'' 137 587 (Some 50),
         linha_exemplo 2020 ''MT'' 138 587 (Some 200), linha_exemplo 2020 ''MT'' 139 587 None,
         linha_exemplo 2020 ''MT'' 140 587 (Some 700)]
        ''2020'' [''MT''] (filtros_padrao\<lparr>min_dif := 100, max_dif := 500\<rparr>))
      = Inr [linha_exemplo 2020 ''MT'' 138 587 (Some 200), linha_exemplo 2020 ''MT'' 136 587 (Some 300)]
   \<and> dif_ge (linha_exemplo 2020 ''MT'' 138 587 (Some 200)) 100
   \<and> dif_le (linha_exemplo 2020 ''MT'' 136 587 (Some 300)) 500"
proof -
  let ?f = "filtros_padrao\<lparr>min_dif := 100, max_dif := 500\<rparr>"
  let ?df = "[linha_exemplo 2020 ''MT'' 136 587 (Some 300), linha_exemplo 2020 ''MT'' 137 587 (Some 50),
         linha_exemplo 2020 ''MT'' 138 587 (Some 200), linha_exemplo 2020 ''MT'' 139 587 None,
         linha_exemplo 2020 ''MT'' 140 587 (Some 700)]"
  have h: "\<not> posicoes_ativas ?f" "filtrar_dificuldade ?f"
    by (simp_all add: posicoes_ativas_def filtros_padrao_def)
  have e: "fst (aplicar_filtros ?df ''2020'' [''MT''] ?f)
      = Inr [linha_exemplo 2020 ''MT'' 138 587 (Some 200), linha_exemplo 2020 ''MT'' 136 587 (Some 300)]"
    by (simp add: aplicar_filtros_def obter_provas_escolhidas_def provas_regulares_def
          habilidade_ativa_def posicoes_ativas_def filtros_padrao_def filtrar_por_dificuldade_def
          dif_ge_def dif_le_def chave_dificuldade_def linha_exemplo_def)
  from C4_intervalo_dificuldade [OF h, of ?df "''2020''" "[''MT'']"] e
  have "dif_ge (linha_exemplo 2020 ''MT'' 138 587 (Some 200)) 100
      \<and> dif_le (linha_exemplo 2020 ''MT'' 136 587 (Some 300)) 500"
    by (simp add: filtros_padrao_def)
  with h e show ?thesis by simp
qed

text \<open>
  C4 as stated, with the interval from 0 to 500: a row of difficulty \<open>-1\<close> is below the
  lower bound and is returned by the difficulty stage.
\<close>

theorem C4_dificuldade_negativa:
  "filtrar_por_dificuldade [linha_exemplo 2020 ''MT'' 136 587 (Some (- 1))] 0 500
     = [linha_exemplo 2020 ''MT'' 136 587 (Some (- 1))]
   \<and> fst (aplicar_filtros [linha_exemplo 2020 ''MT'' 136 587 (Some (- 1))] ''2020'' [''MT'']
        (filtros_padrao\<lparr>min_dif := 0, max_dif := 500\<rparr>))
     = Inr [linha_exemplo 2020 ''MT'' 136 587 (Some (- 1))]
   \<and> \<not> dif_ge (linha_exemplo 2020 ''MT'' 136 587 (Some (- 1))) 0"
  by (simp add: aplicar_filtros_def obter_provas_escolhidas_def provas_regulares_def
        habilidade_ativa_def posicoes_ativas_def filtros_padrao_def filtrar_por_dificuldade_def
        dif_ge_def dif_le_def chave_dificuldade_def linha_exemplo_def)

section \<open>The position filter\<close>

text \<open>
  C3 (amended). When the requested positions \<open>p1, ..., pk\<close> are pairwise distinct and
  the table has a row at each of them, \<open>_filtrar_por_posicao\<close> returns rows whose
  positions are exactly \<open>p1, ..., pk\<close> in the requested order, and each returned row is
  the first row of the table with its position, wherever the rows are stored.
\<close>

theorem C3_ordem_das_posicoes:
  assumes "posicoes_da_string texto = ps" and "ps \<noteq> []" and "distinct ps"
    and "set ps \<subseteq> CO_POSICAO ` set df"
  shows "\<exists>rs. filtrar_por_posicao df texto = Inr rs
           \<and> map CO_POSICAO rs = ps
           \<and> (\<forall>r \<in> set rs. find (\<lambda>x. CO_POSICAO x = CO_POSICAO r) df = Some r)"
proof -
  let ?F = "filter (\<lambda>r. CO_POSICAO r \<in> set ps) df"
  let ?D = "drop_duplicates [] ?F"
  let ?rs = "sort_key (\<lambda>r. codigo_categoria ps (CO_POSICAO r)) ?D"
  have r: "filtrar_por_posicao df texto = Inr ?rs"
    using assms(1-3) by (simp add: filtrar_por_posicao_def)
  have "CO_POSICAO ` set ?D = set ps"
    using assms(4) by (auto simp: posicoes_drop_duplicates)
  with assms(3) distinct_drop_duplicates have m: "map CO_POSICAO ?rs = ps"
    by (rule ordenar_por_categoria)
  have p: "find (\<lambda>x. CO_POSICAO x = CO_POSICAO r) df = Some r" if "r \<in> set ?rs" for r
  proof -
    from that have d: "r \<in> set ?D" by simp
    then have "CO_POSICAO r \<in> CO_POSICAO ` set ?D" by (rule imageI)
    then have "CO_POSICAO r \<in> set ps" by (auto simp: posicoes_drop_duplicates)
    then have "find (\<lambda>x. CO_POSICAO x = CO_POSICAO r) ?F = find (\<lambda>x. CO_POSICAO x = CO_POSICAO r) df"
      by (intro find_filter) simp
    with primeira_drop_duplicates [OF d] show ?thesis by simp
  qed
  from r m p show ?thesis by blast
qed

theorem C3_ordem_das_posicoes_witness:
  "posicoes_da_string ''111 109'' = [111, 109] \<and> [111, 109 :: int] \<noteq> [] \<and> distinct [111, 109 :: int]
   \<and> set [111, 109] \<subseteq> CO_POSICAO ` set
        [linha_exemplo 2020 ''MT'' 109 587 (Some 3), linha_exemplo 2020 ''MT'' 110 587 (Some 4),
         linha_exemplo 2020 ''MT'' 111 587 (Some 5), linha_exemplo 2020 ''MT'' 109 587 (Some 6)]
   \<and> (\<exists>rs. filtrar_por_posicao
        [linha_exemplo 2020 ''MT'' 109 587 (Some 3), linha_exemplo 2020 ''MT'' 110 587 (Some 4),
         linha_exemplo 2020 ''MT'' 111 587 (Some 5), linha_exemplo 2020 ''MT'' 109 587 (Some 6)]
        ''111 109'' = Inr rs
      \<and> map CO_POSICAO rs = [111, 109]
      \<and> (\<forall>r \<in> set rs. find (\<lambda>x. CO_POSICAO x = CO_POSICAO r)
        [linha_exemplo 2020 ''MT'' 109 587 (Some 3), linha_exemplo 2020 ''MT'' 110 587 (Some 4),
         linha_exemplo 2020 ''MT'' 111 587 (Some 5), linha_exemplo 2020 ''MT'' 109 587 (Some 6)]
          = Some r))"
proof -
  let ?df = "[linha_exemplo 2020 ''MT'' 109 587 (Some 3), linha_exemplo 2020 ''MT'' 110 587 (Some 4),
         linha_exemplo 2020 ''MT'' 111 587 (Some 5), linha_exemplo 2020 ''MT'' 109 587 (Some 6)]"
  have h: "[111, 109 :: int] \<noteq> []" "distinct [111, 109 :: int]"
    "set [111, 109] \<subseteq> CO_POSICAO ` set ?df"
    by (simp_all add: linha_exemplo_def)
  from C3_ordem_das_posicoes [OF posicoes_exemplo(1) h] posicoes_exemplo(1) h
  show ?thesis by (intro conjI)
qed

text \<open>
  C3 as stated, for the request \<open>109 109\<close> on a table with a row at position 109: no
  rows are returned, the call raises ValueError.
\<close>

theorem C3_posicao_repetida:
  "posicoes_da_string ''109 109'' = [109, 109]
   \<and> 109 \<in> CO_POSICAO ` set [linha_exemplo 2020 ''MT'' 109 587 (Some 3)]
   \<and> filtrar_por_posicao [linha_exemplo 2020 ''MT'' 109 587 (Some 3)] ''109 109'' = Inl ValueError"
  by (simp add: filtrar_por_posicao_def posicoes_exemplo linha_exemplo_def)

text \<open>
  C10 at a form that \<open>validar\<close> accepts, with position 109 typed twice: the filters of
  the year 2020 raise ValueError, which \<open>carregar_questoes\<close> does not catch.
\<close>

theorem C10_posicao_repetida:
  "validar filtros_posicao_repetida = (True, None)
   \<and> posicoes (gerar_filtros filtros_posicao_repetida) = Some ''109 109''
   \<and> carregar_questoes [linha_exemplo 2020 ''MT'' 109 587 (Some 3)]
        (map int_str (fq_anos filtros_posicao_repetida)) (fq_materias filtros_posicao_repetida)
        (gerar_filtros filtros_posicao_repetida)
      = (Inl ValueError, [])"
  by code_simp

section \<open>The numbers of the assembled questions\<close>

text \<open>
  C9 on two questions of which the first has no details file: one question is
  assembled and its number is 2, the counter of the loop, not 1.
\<close>

theorem C9_numero_com_lacuna:
  "fst (carregar_questoes
         [linha_exemplo 2020 ''MT'' 136 587 (Some 3), linha_exemplo 2020 ''MT'' 137 587 (Some 4)]
         [2020] [''MT''] filtros_padrao)
     = Inr [com_numero 1 (com_ano ''2020'' (linha_exemplo 2020 ''MT'' 136 587 (Some 3))),
            com_numero 2 (com_ano ''2020'' (linha_exemplo 2020 ''MT'' 137 587 (Some 4)))]
   \<and> map numero (fst (processar_questoes pasta_exemplo
         [com_numero 1 (com_ano ''2020'' (linha_exemplo 2020 ''MT'' 136 587 (Some 3))),
          com_numero 2 (com_ano ''2020'' (linha_exemplo 2020 ''MT'' 137 587 (Some 4)))]))
     = [2]"
  by code_simp

section \<open>Years and subjects without an exam code\<close>



end
